theory Spec2Isabelle
  imports Complex_Main
begin

section \<open>Python values\<close>

text \<open>
  The program is a Python script (\<^verbatim>\<open>webapp.py\<close>).  A Python \<^verbatim>\<open>str\<close> is modelled by
  the \<open>string\<close> of its UTF-8 bytes; every operation below is exact on ASCII text.  The
  library behaviour that depends on Unicode tables (digits and white space outside ASCII
  accepted by \<^verbatim>\<open>int\<close>, \<^verbatim>\<open>float\<close>, \<^verbatim>\<open>strip\<close> and \<^verbatim>\<open>\d\<close>) is not
  represented: such bytes are ordinary characters here.  An exception is a value of
  \<open>py_error\<close>, and a function that can raise returns \<open>py_error + 'a\<close>.
\<close>

datatype py_error =
  ValueError | IndexError | AttributeError | TypeError | OverflowError | KeyError

text \<open>
  A Python \<^verbatim>\<open>float\<close> is an IEEE binary64 number: a finite value is kept as the rational
  it denotes (the sign of zero is not kept), next to the two infinities and NaN.
\<close>

datatype pyfloat = Finite rat | PosInf | NegInf | NaN

datatype py_num = PyInt int | PyFloat pyfloat

subsection \<open>Characters\<close>

definition is_digit :: "char \<Rightarrow> bool" where
  "is_digit c = (c \<in> set ''0123456789'')"

definition digit_val :: "char \<Rightarrow> int" where
  "digit_val c = of_char c - 48"

definition digits_val :: "string \<Rightarrow> int" where
  "digits_val ds = foldl (\<lambda>a c. 10 * a + digit_val c) 0 ds"

text \<open>White space skipped by \<^verbatim>\<open>int\<close> and \<^verbatim>\<open>float\<close> on ASCII text.\<close>

definition is_space_ascii :: "char \<Rightarrow> bool" where
  "is_space_ascii c = (c \<in> {CHR 0x09, CHR 0x0A, CHR 0x0B, CHR 0x0C, CHR 0x0D, CHR 0x20})"

text \<open>White space removed by \<^verbatim>\<open>str.strip()\<close>: \<^verbatim>\<open>str.isspace\<close> on ASCII.\<close>

definition is_space_str :: "char \<Rightarrow> bool" where
  "is_space_str c =
     (is_space_ascii c \<or> c \<in> {CHR 0x1C, CHR 0x1D, CHR 0x1E, CHR 0x1F})"

definition strip_with :: "(char \<Rightarrow> bool) \<Rightarrow> string \<Rightarrow> string" where
  "strip_with ws s = rev (dropWhile ws (rev (dropWhile ws s)))"

definition py_strip :: "string \<Rightarrow> string" where
  "py_strip s = strip_with is_space_str s"

definition lower_ascii :: "char \<Rightarrow> char" where
  "lower_ascii c =
     (let n = (of_char c :: nat) in if 65 \<le> n \<and> n \<le> 90 then char_of (n + 32) else c)"

subsection \<open>Rounding to binary64\<close>

function bitlen :: "int \<Rightarrow> nat" where
  "bitlen n = (if n \<le> 0 then 0 else Suc (bitlen (n div 2)))"
  by pat_completeness auto
termination
  by (relation "measure nat") auto

declare bitlen.simps [simp del]

definition round_half_even :: "int \<Rightarrow> int \<Rightarrow> int" where
  "round_half_even n d =
     (let q = n div d; r = n mod d
      in if 2 * r < d then q
         else if d < 2 * r then q + 1
         else if even q then q else q + 1)"

text \<open>
  The binary64 number nearest to \<open>n / d\<close> (for \<open>0 \<le> n\<close> and \<open>0 < d\<close>), ties to even:
  \<open>l\<close> is the binary exponent of the quotient, \<open>e\<close> the exponent of the last place of a
  53-bit significand (not below the subnormal \<open>- 1074\<close>), and \<open>None\<close> stands for
  overflow.
\<close>

definition binary64_of_ratio :: "int \<Rightarrow> int \<Rightarrow> rat option" where
  "binary64_of_ratio n d =
     (if n = 0 then Some 0
      else
        let k = int (bitlen n) - int (bitlen d);
            l = (if d * 2 ^ nat k \<le> n * 2 ^ nat (- k) then k else k - 1);
            e = max (l - 52) (- 1074);
            m = round_half_even (n * 2 ^ nat (- e)) (d * 2 ^ nat e)
        in if 1024 < int (bitlen m) + e then None
           else Some (of_int (m * 2 ^ nat e) / of_int (2 ^ nat (- e))))"

definition round_binary64 :: "rat \<Rightarrow> pyfloat" where
  "round_binary64 q =
     (let (n, d) = quotient_of q
      in case binary64_of_ratio \<bar>n\<bar> d of
           None \<Rightarrow> (if q < 0 then NegInf else PosInf)
         | Some v \<Rightarrow> Finite (if q < 0 then - v else v))"

text \<open>\<^verbatim>\<open>x * y\<close> on floats.\<close>

fun float_mul :: "pyfloat \<Rightarrow> pyfloat \<Rightarrow> pyfloat" where
  "float_mul (Finite a) (Finite b) = round_binary64 (a * b)"
| "float_mul NaN y = NaN"
| "float_mul x NaN = NaN"
| "float_mul (Finite a) PosInf = (if a = 0 then NaN else if 0 < a then PosInf else NegInf)"
| "float_mul (Finite a) NegInf = (if a = 0 then NaN else if 0 < a then NegInf else PosInf)"
| "float_mul PosInf (Finite b) = (if b = 0 then NaN else if 0 < b then PosInf else NegInf)"
| "float_mul NegInf (Finite b) = (if b = 0 then NaN else if 0 < b then NegInf else PosInf)"
| "float_mul PosInf PosInf = PosInf"
| "float_mul PosInf NegInf = NegInf"
| "float_mul NegInf PosInf = NegInf"
| "float_mul NegInf NegInf = PosInf"

text \<open>The conversion of an \<^verbatim>\<open>int\<close> operand of a float operation.\<close>

definition float_of_int :: "int \<Rightarrow> py_error + pyfloat" where
  "float_of_int i =
     (case round_binary64 (of_int i) of
        Finite q \<Rightarrow> Inr (Finite q)
      | _ \<Rightarrow> Inl OverflowError)"

text \<open>\<^verbatim>\<open>int(x)\<close> on a float: truncation toward zero.\<close>

definition trunc :: "rat \<Rightarrow> int" where
  "trunc q = (if q < 0 then - \<lfloor>- q\<rfloor> else \<lfloor>q\<rfloor>)"

fun int_of_float :: "pyfloat \<Rightarrow> py_error + int" where
  "int_of_float (Finite q) = Inr (trunc q)"
| "int_of_float NaN = Inl ValueError"
| "int_of_float PosInf = Inl OverflowError"
| "int_of_float NegInf = Inl OverflowError"

text \<open>\<^verbatim>\<open>a == b\<close> on numbers: the values are compared exactly.\<close>

fun py_num_eq :: "py_num \<Rightarrow> py_num \<Rightarrow> bool" where
  "py_num_eq (PyInt i) (PyInt j) = (i = j)"
| "py_num_eq (PyInt i) (PyFloat (Finite q)) = (of_int i = q)"
| "py_num_eq (PyFloat (Finite q)) (PyInt i) = (q = of_int i)"
| "py_num_eq (PyFloat NaN) y = False"
| "py_num_eq x (PyFloat NaN) = False"
| "py_num_eq (PyInt i) (PyFloat y) = False"
| "py_num_eq (PyFloat x) (PyInt i) = False"
| "py_num_eq (PyFloat x) (PyFloat y) = (x = y)"

subsection \<open>Numbers from text: \<^verbatim>\<open>int(s)\<close> and \<^verbatim>\<open>float(s)\<close> of CPython 3.11\<close>

definition split_sign :: "string \<Rightarrow> bool \<times> string" where
  "split_sign s =
     (case s of
        [] \<Rightarrow> (False, s)
      | c # r \<Rightarrow>
          if c = CHR ''-'' then (True, r) else if c = CHR ''+'' then (False, r) else (False, s))"

text \<open>An underscore is allowed only between two digits.\<close>

fun underscores_ok :: "char option \<Rightarrow> string \<Rightarrow> bool" where
  "underscores_ok prev [] = (prev \<noteq> Some CHR ''_'')"
| "underscores_ok prev (c # cs) =
     (if c = CHR ''_'' then
        (case prev of
           None \<Rightarrow> False
         | Some p \<Rightarrow> is_digit p \<and> underscores_ok (Some c) cs)
      else if prev = Some CHR ''_'' then is_digit c \<and> underscores_ok (Some c) cs
      else underscores_ok (Some c) cs)"

definition no_underscores :: "string \<Rightarrow> string" where
  "no_underscores s = filter (\<lambda>c. c \<noteq> CHR ''_'') s"

text \<open>
  \<^verbatim>\<open>int(s)\<close> in base 10: white space around, a sign, digits; more than 4300 digits are
  refused.
\<close>

definition py_int :: "string \<Rightarrow> py_error + int" where
  "py_int text =
     (let (neg, body) = split_sign (strip_with is_space_ascii text);
          ds = no_underscores body
      in if ds \<noteq> [] \<and> list_all is_digit ds \<and> underscores_ok None body \<and> length ds \<le> 4300
         then Inr (if neg then - digits_val ds else digits_val ds)
         else Inl ValueError)"

definition parse_exponent :: "string \<Rightarrow> int option" where
  "parse_exponent r =
     (case r of
        [] \<Rightarrow> Some 0
      | c # r' \<Rightarrow>
          if c = CHR ''e'' \<or> c = CHR ''E'' then
            (let (neg, ds) = split_sign r'
             in if ds \<noteq> [] \<and> list_all is_digit ds
                then Some (if neg then - digits_val ds else digits_val ds)
                else None)
          else None)"

text \<open>
  A decimal literal \<^verbatim>\<open>digits [. digits] [e [sign] digits]\<close> with a digit before or after
  the point: the result \<open>(m, ex)\<close> stands for \<open>m * 10 ^ ex\<close>.
\<close>

definition parse_decimal :: "string \<Rightarrow> (int \<times> int) option" where
  "parse_decimal s =
     (let ip = takeWhile is_digit s;
          r1 = dropWhile is_digit s;
          (fp, r2) = (case r1 of
                        [] \<Rightarrow> ([], r1)
                      | c # r \<Rightarrow>
                          if c = CHR ''.'' then (takeWhile is_digit r, dropWhile is_digit r)
                          else ([], r1))
      in if ip = [] \<and> fp = [] then None
         else case parse_exponent r2 of
                None \<Rightarrow> None
              | Some ex \<Rightarrow> Some (digits_val (ip @ fp), ex - int (length fp)))"

definition pow10 :: "int \<Rightarrow> rat" where
  "pow10 ex = (if 0 \<le> ex then 10 ^ nat ex else 1 / 10 ^ nat (- ex))"

definition py_float :: "string \<Rightarrow> py_error + pyfloat" where
  "py_float text =
     (let s = strip_with is_space_ascii text
      in if \<not> underscores_ok None s then Inl ValueError
         else
           let (neg, body) = split_sign (no_underscores s);
               low = map lower_ascii body
           in if low = ''inf'' \<or> low = ''infinity'' then Inr (if neg then NegInf else PosInf)
              else if low = ''nan'' then Inr NaN
              else case parse_decimal body of
                     None \<Rightarrow> Inl ValueError
                   | Some (m, ex) \<Rightarrow>
                       Inr (round_binary64 ((if neg then - 1 else 1) * of_int m * pow10 ex)))"

section \<open>The numeric normalizer: \<^verbatim>\<open>text_to_num\<close>\<close>

text \<open>
  \<^verbatim>\<open>
  def text_to_num(text):
      # used to convert votecounts to usable integers
      dic = {'K': 1000, 'M': 1000000}
      if text[-1] in dic:
          num, mag = text[:-1], text[-1]
          return int(float(num) * dic[mag])
      else:
          return float(text)
  \<close>
\<close>

definition dic :: "char \<rightharpoonup> int" where
  "dic = [CHR ''K'' \<mapsto> 1000, CHR ''M'' \<mapsto> 1000000]"

definition text_to_num :: "string \<Rightarrow> py_error + py_num" where
  "text_to_num text =
     (if text = [] then Inl IndexError
      else case dic (last text) of
             Some mag \<Rightarrow>
               (case py_float (butlast text) of
                  Inl e \<Rightarrow> Inl e
                | Inr x \<Rightarrow>
                    (case float_of_int mag of
                       Inl e \<Rightarrow> Inl e
                     | Inr y \<Rightarrow>
                         (case int_of_float (float_mul x y) of
                            Inl e \<Rightarrow> Inl e
                          | Inr i \<Rightarrow> Inr (PyInt i))))
           | None \<Rightarrow>
               (case py_float text of
                  Inl e \<Rightarrow> Inl e
                | Inr x \<Rightarrow> Inr (PyFloat x)))"

section \<open>The URL validator: \<^verbatim>\<open>is_valid_imdb_url\<close>\<close>

subsection \<open>\<^verbatim>\<open>urllib.parse.urlparse\<close> of CPython 3.11\<close>

text \<open>
  Two checks of the library are not part of this development and are parameters: the
  validation of a bracketed host (an IPv6 or IPvFuture literal) and the test whether a
  non-ASCII authority contains a delimiter after NFKC normalization.  Both raise
  \<^verbatim>\<open>ValueError\<close> in the library when they fail.
\<close>

record urllib =
  bracketed_host_ok :: "string \<Rightarrow> bool"
  nfkc_has_delimiter :: "string \<Rightarrow> bool"

record split_result =
  scheme :: string
  netloc :: string
  path :: string
  query :: string
  fragment :: string

definition is_c0_control_or_space :: "char \<Rightarrow> bool" where
  "is_c0_control_or_space c = ((of_char c :: nat) \<le> 32)"

definition is_unsafe_url_byte :: "char \<Rightarrow> bool" where
  "is_unsafe_url_byte c = (c \<in> {CHR 0x09, CHR 0x0D, CHR 0x0A})"

definition scheme_chars :: string where
  "scheme_chars = ''abcdefghijklmnopqrstuvwxyzABCDEFGHIJKLMNOPQRSTUVWXYZ0123456789+-.''"

definition is_ascii_alpha :: "char \<Rightarrow> bool" where
  "is_ascii_alpha c =
     (let n = (of_char c :: nat) in (65 \<le> n \<and> n \<le> 90) \<or> (97 \<le> n \<and> n \<le> 122))"

definition is_ascii :: "char \<Rightarrow> bool" where
  "is_ascii c = ((of_char c :: nat) < 128)"

text \<open>\<^verbatim>\<open>s.split(c, 1)\<close> when \<^verbatim>\<open>c in s\<close>, and \<^verbatim>\<open>(s, '')\<close> otherwise.\<close>

definition split_once :: "char \<Rightarrow> string \<Rightarrow> string \<times> string" where
  "split_once c s =
     (takeWhile (\<lambda>x. x \<noteq> c) s, drop 1 (dropWhile (\<lambda>x. x \<noteq> c) s))"

text \<open>
  The scheme is the text before the first colon when that text starts with an ASCII
  letter and consists of scheme characters; it is returned in lower case.
\<close>

definition split_scheme :: "string \<Rightarrow> string \<times> string" where
  "split_scheme url =
     (let pre = takeWhile (\<lambda>x. x \<noteq> CHR '':'') url;
          rest = dropWhile (\<lambda>x. x \<noteq> CHR '':'') url
      in if rest \<noteq> [] \<and> pre \<noteq> [] \<and> is_ascii_alpha (hd pre)
            \<and> list_all (\<lambda>c. c \<in> set scheme_chars) pre
         then (map lower_ascii pre, tl rest)
         else ([], url))"

definition splitnetloc :: "string \<Rightarrow> string \<times> string" where
  "splitnetloc url =
     (let body = drop 2 url
      in (takeWhile (\<lambda>c. c \<notin> set ''/?#'') body, dropWhile (\<lambda>c. c \<notin> set ''/?#'') body))"

definition bracketed_host :: "string \<Rightarrow> string" where
  "bracketed_host nl =
     takeWhile (\<lambda>c. c \<noteq> CHR '']'') (drop 1 (dropWhile (\<lambda>c. c \<noteq> CHR ''['') nl))"

definition urlsplit :: "urllib \<Rightarrow> string \<Rightarrow> py_error + split_result" where
  "urlsplit L url0 =
     (let url1 = filter (\<lambda>c. \<not> is_unsafe_url_byte c) (dropWhile is_c0_control_or_space url0);
          (sch, url2) = split_scheme url1;
          (nl, url3) = (if take 2 url2 = ''//'' then splitnetloc url2 else ([], url2));
          (url4, frag) = split_once (CHR ''#'') url3;
          (url5, qry) = split_once (CHR ''?'') url4
      in if take 2 url2 = ''//'' \<and> (CHR ''['' \<in> set nl) \<noteq> (CHR '']'' \<in> set nl)
         then Inl ValueError
         else if take 2 url2 = ''//'' \<and> CHR ''['' \<in> set nl \<and> CHR '']'' \<in> set nl
                 \<and> \<not> bracketed_host_ok L (bracketed_host nl)
         then Inl ValueError
         else if nl \<noteq> [] \<and> \<not> list_all is_ascii nl \<and> nfkc_has_delimiter L nl
         then Inl ValueError
         else Inr \<lparr>scheme = sch, netloc = nl, path = url5, query = qry, fragment = frag\<rparr>)"

text \<open>
  \<^verbatim>\<open>urlparse\<close> is \<^verbatim>\<open>urlsplit\<close> followed by the separation of the parameters of the
  path, which raises nothing and leaves scheme and authority as they are.
\<close>

definition urlparse :: "urllib \<Rightarrow> string \<Rightarrow> py_error + split_result" where
  "urlparse L url = urlsplit L url"

subsection \<open>The pattern\<close>

definition drop_prefix :: "string \<Rightarrow> string \<Rightarrow> string option" where
  "drop_prefix p s = (if take (length p) s = p then Some (drop (length p) s) else None)"

text \<open>
  \<^verbatim>\<open>re.match(r'^https://www\.imdb\.com/title/tt\d+/episodes/\?season=$', url)\<close>: the
  literal prefix, the longest run of digits (the next pattern character is no digit, so
  nothing shorter can match), the literal rest, and the end of the text, which \<^verbatim>\<open>$\<close>
  also finds before one final line feed.
\<close>

definition match_url_pattern :: "string \<Rightarrow> bool" where
  "match_url_pattern url =
     (case drop_prefix ''https://www.imdb.com/title/tt'' url of
        None \<Rightarrow> False
      | Some r \<Rightarrow>
          takeWhile is_digit r \<noteq> []
          \<and> dropWhile is_digit r \<in> {''/episodes/?season='', ''/episodes/?season='' @ [CHR 0x0A]})"

subsection \<open>The validator\<close>

text \<open>
  \<^verbatim>\<open>
  def is_valid_imdb_url(url):
      url = url + 'episodes/?season='
      # regex to match proper url and endpoints
      url_pattern = r'^https://www\.imdb\.com/title/tt\d+/episodes/\?season=$'
      # check if url belongs to imdb
      parsed_url = urlparse(url)
      if not (bool(parsed_url.scheme) and bool(parsed_url.netloc)):
          return False

      # verify url matches pattern
      return re.match(url_pattern, url) is not None
  \<close>
\<close>

definition is_valid_imdb_url :: "urllib \<Rightarrow> string \<Rightarrow> py_error + bool" where
  "is_valid_imdb_url L url0 =
     (let url = url0 @ ''episodes/?season=''
      in case urlparse L url of
           Inl e \<Rightarrow> Inl e
         | Inr parsed_url \<Rightarrow>
             if \<not> (scheme parsed_url \<noteq> [] \<and> netloc parsed_url \<noteq> []) then Inr False
             else Inr (match_url_pattern url))"

section \<open>The scraper: \<^verbatim>\<open>scrape_data\<close> and \<^verbatim>\<open>parse_data\<close>\<close>

subsection \<open>The world outside the script\<close>

text \<open>
  Three libraries are parameters of the model.  \<open>get\<close> answers for
  \<^verbatim>\<open>requests.get(url, headers=headers)\<close> followed by \<^verbatim>\<open>raise_for_status()\<close>: the
  text of the response, or the exception raised, with its message.  \<open>soup\<close> answers for
  \<^verbatim>\<open>BeautifulSoup(markup, 'html.parser')\<close> and the searches the script runs on the
  parsed document: a \<open>page\<close> holds, for each \<^verbatim>\<open>find\<close>, the \<^verbatim>\<open>.text\<close> of the first
  element found (\<open>None\<close> when there is none) and, for each \<^verbatim>\<open>find_all\<close>, the list of
  the elements found.  \<open>strptime\<close> answers for
  \<^verbatim>\<open>datetime.strptime(text, '%a, %b %d, %Y')\<close>.
\<close>

datatype response =
  Ok string | HTTPError string | RequestException string | OtherException string

record episode_block =
  title_div :: "string option"
  rating_span :: "string option"
  airdate_span :: "string option"
  description_div :: "string option"

record page =
  series_rating_span :: "string option"
  series_votes_div :: "string option"
  season_tabs :: "string list"
  show_name_h2 :: "string option"
  poster_imgs :: "(string \<times> string option) list"
  episode_divs :: "episode_block list"

record 'd env =
  get :: "string \<Rightarrow> response"
  soup :: "string \<Rightarrow> page"
  strptime :: "string \<Rightarrow> py_error + 'd"

text \<open>What the user sees: \<^verbatim>\<open>st.error\<close>, \<^verbatim>\<open>st.toast\<close> and \<^verbatim>\<open>print\<close>.\<close>

datatype ui = StError string | StToast string | Print string

subsection \<open>Helpers\<close>

fun and_then :: "'e + 'a \<Rightarrow> ('a \<Rightarrow> 'e + 'b) \<Rightarrow> 'e + 'b" where
  "and_then (Inl e) f = Inl e"
| "and_then (Inr x) f = f x"

text \<open>\<^verbatim>\<open>xs[i]\<close> for \<open>0 \<le> i\<close>.\<close>

definition py_index :: "'a list \<Rightarrow> nat \<Rightarrow> py_error + 'a" where
  "py_index xs i = (if i < length xs then Inr (xs ! i) else Inl IndexError)"

text \<open>\<^verbatim>\<open>element.text.strip()\<close> on the result of a \<^verbatim>\<open>find\<close>.\<close>

definition text_strip :: "string option \<Rightarrow> py_error + string" where
  "text_strip found = (case found of None \<Rightarrow> Inl AttributeError | Some t \<Rightarrow> Inr (py_strip t))"

text \<open>\<^verbatim>\<open>match.group(1)\<close> on the result of a \<^verbatim>\<open>re.search\<close>.\<close>

definition group1 :: "string option \<Rightarrow> py_error + string" where
  "group1 m = (case m of None \<Rightarrow> Inl AttributeError | Some g \<Rightarrow> Inr g)"

text \<open>
  \<^verbatim>\<open>s.split(sep)\<close> for a non-empty \<open>sep\<close>, scanning from the left: \<open>cur\<close> is the piece
  being read and \<open>n\<close> the number of characters of a separator still to skip.
\<close>

fun py_split_from :: "string \<Rightarrow> nat \<Rightarrow> string \<Rightarrow> string \<Rightarrow> string list" where
  "py_split_from sp n cur [] = [cur]"
| "py_split_from sp (Suc n) cur (c # cs) = py_split_from sp n cur cs"
| "py_split_from sp 0 cur (c # cs) =
     (if take (length sp) (c # cs) = sp then cur # py_split_from sp (length sp - 1) [] cs
      else py_split_from sp 0 (cur @ [c]) cs)"

definition py_split :: "string \<Rightarrow> string \<Rightarrow> string list" where
  "py_split sp s = py_split_from sp 0 [] s"

text \<open>\<^verbatim>\<open>str(n)\<close> on an integer.\<close>

function str_nonneg :: "int \<Rightarrow> string" where
  "str_nonneg n =
     (if n < 10 then [char_of (48 + n)] else str_nonneg (n div 10) @ [char_of (48 + n mod 10)])"
  by pat_completeness auto
termination
  by (relation "measure nat") auto

declare str_nonneg.simps [simp del]

definition py_str :: "int \<Rightarrow> string" where
  "py_str n = (if n < 0 then CHR ''-'' # str_nonneg (- n) else str_nonneg n)"

subsection \<open>The patterns of \<^verbatim>\<open>parse_data\<close>\<close>

text \<open>
  \<^verbatim>\<open>epnum = re.compile(r'S[0-9]+\.E([0-9]+)')\<close>.  \<open>match_epnum s\<close> is the match at the
  start of \<open>s\<close>: group 1 and the text after the match.  Both runs of digits are the
  longest ones, since the character that has to follow the first is no digit.
\<close>

definition match_epnum :: "string \<Rightarrow> (string \<times> string) option" where
  "match_epnum s =
     (case s of
        [] \<Rightarrow> None
      | c # r \<Rightarrow>
          if c = CHR ''S'' \<and> takeWhile is_digit r \<noteq> [] then
            (case drop_prefix ''.E'' (dropWhile is_digit r) of
               None \<Rightarrow> None
             | Some r2 \<Rightarrow>
                 if takeWhile is_digit r2 \<noteq> []
                 then Some (takeWhile is_digit r2, dropWhile is_digit r2)
                 else None)
          else None)"

text \<open>
  \<^verbatim>\<open>epnum.sub('\\1', s)\<close>: every match, found from the left, is replaced by its group 1;
  \<open>n\<close> is the number of characters of a match still to skip.
\<close>

fun epnum_sub_from :: "nat \<Rightarrow> string \<Rightarrow> string" where
  "epnum_sub_from n [] = []"
| "epnum_sub_from (Suc n) (c # cs) = epnum_sub_from n cs"
| "epnum_sub_from 0 (c # cs) =
     (case match_epnum (c # cs) of
        None \<Rightarrow> c # epnum_sub_from 0 cs
      | Some (g, rest) \<Rightarrow> g @ epnum_sub_from (length cs - length rest) cs)"

definition epnum_sub :: "string \<Rightarrow> string" where
  "epnum_sub s = epnum_sub_from 0 s"

text \<open>
  \<^verbatim>\<open>re.search(ratingmatch, s)\<close> with \<^verbatim>\<open>ratingmatch = re.compile(r'(\d+(?:\.\d+)?)')\<close>:
  the first run of digits, with a point and a further run of digits when they follow.
\<close>

definition search_rating :: "string \<Rightarrow> string option" where
  "search_rating s =
     (let r = dropWhile (\<lambda>c. \<not> is_digit c) s;
          d1 = takeWhile is_digit r
      in if d1 = [] then None
         else case dropWhile is_digit r of
                [] \<Rightarrow> Some d1
              | c # r2 \<Rightarrow>
                  if c = CHR ''.'' \<and> takeWhile is_digit r2 \<noteq> []
                  then Some (d1 @ ''.'' @ takeWhile is_digit r2)
                  else Some d1)"

text \<open>
  \<^verbatim>\<open>re.search(votesmatch, s)\<close> with \<^verbatim>\<open>votesmatch = re.compile(r'\(([^)]*)\)')\<close>: the
  text between the first opening parenthesis and the next closing one.
\<close>

definition search_votes :: "string \<Rightarrow> string option" where
  "search_votes s =
     (case dropWhile (\<lambda>c. c \<noteq> CHR ''('') s of
        [] \<Rightarrow> None
      | c # r \<Rightarrow>
          if CHR '')'' \<in> set r then Some (takeWhile (\<lambda>x. x \<noteq> CHR '')'') r) else None)"

text \<open>
  The separator between episode number and title, as the source file has it: a space,
  the characters U+00E2, U+02C6 and U+2122 (the UTF-8 bytes of the bullet operator U+2219
  read as Windows-1252) in UTF-8, and a space.
\<close>

definition sep :: string where
  "sep = [CHR 0x20, CHR 0xC3, CHR 0xA2, CHR 0xCB, CHR 0x86, CHR 0xE2, CHR 0x84, CHR 0xA2,
          CHR 0x20]"

text \<open>
  \<^verbatim>\<open>float(s) if '.' in s else int(s)\<close>, the conversion of both the rating of the series
  and the rating of an episode.
\<close>

definition rating_number :: "string \<Rightarrow> py_error + py_num" where
  "rating_number s =
     (if CHR ''.'' \<in> set s then and_then (py_float s) (\<lambda>x. Inr (PyFloat x))
      else and_then (py_int s) (\<lambda>i. Inr (PyInt i)))"

subsection \<open>\<^verbatim>\<open>scrape_data\<close>\<close>

text \<open>
  \<^verbatim>\<open>
  def scrape_data(url):
      try:
          headers = {'User-Agent': ...}
          response = requests.get(url, headers=headers)
          response.raise_for_status()
          return response.text
      except requests.exceptions.HTTPError as e:
          st.error(f"HTTP Error: {e}")
      except requests.exceptions.RequestException as e:
          st.error(f"Error: {e}")
      except Exception as e:
          st.error(f"An unexpected error occurred: {e}")
  \<close>
  The function returns the messages shown and the value returned, which is \<^verbatim>\<open>None\<close>
  after an exception.
\<close>

definition scrape_data :: "'d env \<Rightarrow> string \<Rightarrow> ui list \<times> string option" where
  "scrape_data E url =
     (case get E url of
        Ok body \<Rightarrow> ([], Some body)
      | HTTPError e \<Rightarrow> ([StError (''HTTP Error: '' @ e)], None)
      | RequestException e \<Rightarrow> ([StError (''Error: '' @ e)], None)
      | OtherException e \<Rightarrow> ([StError (''An unexpected error occurred: '' @ e)], None))"

text \<open>\<^verbatim>\<open>BeautifulSoup(markup, 'html.parser')\<close>: the constructor raises on \<^verbatim>\<open>None\<close>.\<close>

definition BeautifulSoup :: "'d env \<Rightarrow> string option \<Rightarrow> py_error + page" where
  "BeautifulSoup E markup =
     (case markup of None \<Rightarrow> Inl TypeError | Some m \<Rightarrow> Inr (soup E m))"

subsection \<open>\<^verbatim>\<open>parse_data\<close>\<close>

text \<open>One row of \<^verbatim>\<open>series_episode_data\<close>, with the column names of the data frame.\<close>

record 'd episode_record =
  season :: int
  episode_number :: int
  cumulative_episode_number :: int
  title :: string
  air_date :: 'd
  rating_value :: py_num
  votes :: py_num
  description :: string

text \<open>
  A step that shows messages and may raise: the messages shown, and the error or the
  value.  Messages shown before an exception stay shown.
\<close>

fun then_ui ::
  "ui list \<times> (py_error + 'a) \<Rightarrow> ('a \<Rightarrow> ui list \<times> (py_error + 'b)) \<Rightarrow> ui list \<times> (py_error + 'b)"
where
  "then_ui (l, Inl e) f = (l, Inl e)"
| "then_ui (l, Inr x) f = (l @ fst (f x), snd (f x))"

text \<open>
  The discovery of the seasons:
  \<^verbatim>\<open>
  seasons = []
  for tab in seasontabs:
      try:
          season_number = int(tab.text.strip())
          seasons.append(season_number)
      except ValueError:
          print(f"Skipping non-integer season tab: {tab.text.strip()}")
  seasons = range(1, int(seasontabs[-1].text.strip()) + 1)
  \<close>
  \<open>tabs_loop\<close> is the loop, with the list it builds and the lines it prints; the last
  statement replaces that list.
\<close>

fun tabs_loop :: "string list \<Rightarrow> int list \<Rightarrow> ui list \<Rightarrow> int list \<times> ui list" where
  "tabs_loop [] seasons out = (seasons, out)"
| "tabs_loop (tab # tabs) seasons out =
     (case py_int (py_strip tab) of
        Inr season_number \<Rightarrow> tabs_loop tabs (seasons @ [season_number]) out
      | Inl e \<Rightarrow>
          tabs_loop tabs seasons
            (out @ [Print (''Skipping non-integer season tab: '' @ py_strip tab)]))"

definition discover_seasons :: "string list \<Rightarrow> ui list \<times> (py_error + int list)" where
  "discover_seasons seasontabs =
     (let (seasons, out) = tabs_loop seasontabs [] []
      in (out,
          if seasontabs = [] then Inl IndexError
          else and_then (py_int (py_strip (last seasontabs))) (\<lambda>n. Inr [1..n])))"

text \<open>
  \<^verbatim>\<open>
  poster_tag = soup.find('img', {'alt': show_name, 'class': 'ipc-image'})
  poster_url = poster_tag['src'] if poster_tag else 'Image not found'
  \<close>
\<close>

definition poster_url_of :: "page \<Rightarrow> string \<Rightarrow> py_error + string" where
  "poster_url_of pg show_name =
     (case find (\<lambda>img. fst img = show_name) (poster_imgs pg) of
        None \<Rightarrow> Inr ''Image not found''
      | Some img \<Rightarrow> (case snd img of None \<Rightarrow> Inl KeyError | Some src \<Rightarrow> Inr src))"

text \<open>
  The body of the loop over the episodes of a season, from the counter \<open>cum\<close> before the
  episode: the error raised, or the counter after the episode together with the row to
  append, \<open>None\<close> when the body leaves the loop with \<^verbatim>\<open>break\<close>.
  \<^verbatim>\<open>
  title = episode.find('div', class_='ipc-title__text').text.strip()
  episode_number = int(epnum.sub('\\1', title.split(SEP)[0]))
  cumulative_episode_number += 1
  title = title.split(SEP)[1]
  try:
      rating = episode.find('span', class_='ipc-rating-star').text.strip()
  except AttributeError:
      break
  rating_value = re.search(ratingmatch, rating).group(1)
  if '.' in rating_value:
      rating_value = float(rating_value)
  else:
      rating_value = int(rating_value)
  votes = text_to_num(re.search(votesmatch, rating).group(1))
  air_date = datetime.strptime(episode.find('span', class_='fyHWhz').text.strip(), r'%a, %b %d, %Y')
  description = episode.find('div', class_='ipc-html-content-inner-div').text.strip()
  episode_data = [season, episode_number, cumulative_episode_number, title, air_date,
                  rating_value, votes, description]
  series_episode_data.append(episode_data)
  \<close>
\<close>

definition episode_body ::
  "'d env \<Rightarrow> int \<Rightarrow> int \<Rightarrow> episode_block \<Rightarrow> py_error + (int \<times> 'd episode_record option)"
where
  "episode_body E sn cum episode =
     and_then (text_strip (title_div episode)) (\<lambda>title0.
     and_then (py_index (py_split sep title0) 0) (\<lambda>token.
     and_then (py_int (epnum_sub token)) (\<lambda>number.
     and_then (py_index (py_split sep title0) 1) (\<lambda>title1.
       case rating_span episode of
         None \<Rightarrow> Inr (cum + 1, None)
       | Some star \<Rightarrow>
           and_then (group1 (search_rating (py_strip star))) (\<lambda>rating_text.
           and_then (rating_number rating_text) (\<lambda>rating.
           and_then (group1 (search_votes (py_strip star))) (\<lambda>votes_text.
           and_then (text_to_num votes_text) (\<lambda>vote_count.
           and_then (text_strip (airdate_span episode)) (\<lambda>date_text.
           and_then (strptime E date_text) (\<lambda>date.
           and_then (text_strip (description_div episode)) (\<lambda>descr.
             Inr (cum + 1,
                  Some \<lparr>season = sn, episode_number = number,
                        cumulative_episode_number = cum + 1, title = title1,
                        air_date = date, rating_value = rating, votes = vote_count,
                        description = descr\<rparr>))))))))))))"

text \<open>\<^verbatim>\<open>for episode in episodes:\<close> from the counter and the rows so far.\<close>

fun episodes_loop ::
  "'d env \<Rightarrow> int \<Rightarrow> episode_block list \<Rightarrow> int \<Rightarrow> 'd episode_record list
     \<Rightarrow> py_error + (int \<times> 'd episode_record list)"
where
  "episodes_loop E sn [] cum rows = Inr (cum, rows)"
| "episodes_loop E sn (episode # episodes) cum rows =
     (case episode_body E sn cum episode of
        Inl e \<Rightarrow> Inl e
      | Inr (cum', None) \<Rightarrow> Inr (cum', rows)
      | Inr (cum', Some row) \<Rightarrow> episodes_loop E sn episodes cum' (rows @ [row]))"

text \<open>
  \<^verbatim>\<open>
  for season in seasons:
      season_html = scrape_data(url + str(season))
      season_soup = BeautifulSoup(season_html, 'html.parser')
      episodes = season_soup.find_all('div', class_='kyIRYf')
      for episode in episodes: ...
  \<close>
\<close>

fun seasons_loop ::
  "'d env \<Rightarrow> string \<Rightarrow> int list \<Rightarrow> int \<Rightarrow> 'd episode_record list
     \<Rightarrow> ui list \<times> (py_error + 'd episode_record list)"
where
  "seasons_loop E url [] cum rows = ([], Inr rows)"
| "seasons_loop E url (sn # sns) cum rows =
     then_ui (fst (scrape_data E (url @ py_str sn)),
              and_then (BeautifulSoup E (snd (scrape_data E (url @ py_str sn))))
                (\<lambda>season_soup. episodes_loop E sn (episode_divs season_soup) cum rows))
       (\<lambda>state. seasons_loop E url sns (fst state) (snd state))"

definition parse_data ::
  "'d env \<Rightarrow> string \<Rightarrow> string
     \<Rightarrow> ui list \<times> (py_error + 'd episode_record list \<times> (py_num \<times> py_num \<times> string) \<times> string)"
where
  "parse_data E html_data url0 =
     then_ui ([], BeautifulSoup E (Some html_data)) (\<lambda>soup0.
     then_ui ([], and_then (text_strip (series_rating_span soup0)) rating_number)
       (\<lambda>series_rating.
     then_ui ([], and_then (text_strip (series_votes_div soup0)) text_to_num)
       (\<lambda>series_votes.
     then_ui (fst (scrape_data E (url0 @ ''episodes/?season='')),
              BeautifulSoup E (snd (scrape_data E (url0 @ ''episodes/?season=''))))
       (\<lambda>soup1.
     then_ui (discover_seasons (season_tabs soup1)) (\<lambda>seasons.
     then_ui ([], text_strip (show_name_h2 soup1)) (\<lambda>show_name.
     then_ui ([], poster_url_of soup1 show_name) (\<lambda>poster_url.
     then_ui (seasons_loop E (url0 @ ''episodes/?season='') seasons 0 [])
       (\<lambda>series_episode_data.
         ([], Inr (series_episode_data, (series_rating, series_votes, show_name),
                   poster_url))))))))))"

subsection \<open>The scrape button\<close>

text \<open>
  \<^verbatim>\<open>
  if scrape_button:
      print(url_input)
      if is_valid_imdb_url(url_input):
          with st.spinner('Scraping...'):
              html_data = scrape_data(url_input)
              if html_data:
                  processed_data = parse_data(html_data, url_input)
                  st.toast('Data scraped!', icon=...)
                  df = pd.DataFrame(processed_data[0], columns=[...])
                  visualize_data(df, processed_data[1], processed_data[2])
              else:
                  st.error('Failed to scrape data.')
      else:
  \<close>
  The source ends with the last \<^verbatim>\<open>else:\<close>; its branch is the outcome \<open>Rejected\<close>.
  The drawing of the charts is not modelled: \<open>Scraped\<close> carries what is handed to it.
\<close>

datatype 'd outcome =
  Scraped "'d episode_record list" "py_num \<times> py_num \<times> string" string
| Failed
| Rejected

definition scrape_button ::
  "urllib \<Rightarrow> 'd env \<Rightarrow> string \<Rightarrow> ui list \<times> (py_error + 'd outcome)"
where
  "scrape_button L E url_input =
     then_ui ([Print url_input], is_valid_imdb_url L url_input) (\<lambda>valid.
       if valid then
         (case snd (scrape_data E url_input) of
            None \<Rightarrow> (fst (scrape_data E url_input) @ [StError ''Failed to scrape data.''], Inr Failed)
          | Some html_data \<Rightarrow>
              if html_data = [] then
                (fst (scrape_data E url_input) @ [StError ''Failed to scrape data.''], Inr Failed)
              else
                then_ui (fst (scrape_data E url_input), Inr html_data) (\<lambda>markup.
                then_ui (parse_data E markup url_input) (\<lambda>processed_data.
                  ([StToast ''Data scraped!''],
                   Inr (Scraped (fst processed_data) (fst (snd processed_data))
                          (snd (snd processed_data)))))))
       else ([], Inr Rejected))"

section \<open>Sample inputs\<close>

text \<open>
  A stand-in for \<^verbatim>\<open>strptime\<close> that knows one date, and episode blocks with and without
  a rating element.
\<close>

definition sample_strptime :: "string \<Rightarrow> py_error + int \<times> int \<times> int" where
  "sample_strptime s = (if s = ''Sun, Jan 20, 2008'' then Inr (2008, 1, 20) else Inl ValueError)"

definition rated_block :: "string \<Rightarrow> episode_block" where
  "rated_block heading =
     \<lparr>title_div = Some heading, rating_span = Some ''8.4/10 (12K)'',
      airdate_span = Some ''Sun, Jan 20, 2008'', description_div = Some '' A teacher. ''\<rparr>"

definition unrated_block :: "string \<Rightarrow> episode_block" where
  "unrated_block heading =
     \<lparr>title_div = Some heading, rating_span = None,
      airdate_span = None, description_div = None\<rparr>"

definition root_url :: string where
  "root_url = ''https://www.imdb.com/title/tt0903747/''"

definition empty_page :: page where
  "empty_page =
     \<lparr>series_rating_span = None, series_votes_div = None, season_tabs = [],
      show_name_h2 = None, poster_imgs = [], episode_divs = []\<rparr>"

text \<open>
  Markup is named by a short text: \<open>''root''\<close> is the page of the series, \<open>''index''\<close>
  the page of the season tabs (two seasons), \<open>''s1''\<close> a season of one rated episode
  followed by an episode without rating, \<open>''s2''\<close> a season of one rated episode.
\<close>

definition sample_soup :: "string \<Rightarrow> page" where
  "sample_soup markup =
     (if markup = ''root'' then
        empty_page\<lparr>series_rating_span := Some ''9.5'', series_votes_div := Some ''2.3M''\<rparr>
      else if markup = ''index'' then
        empty_page\<lparr>season_tabs := [''1'', ''2''], show_name_h2 := Some ''Breaking Bad'',
                   poster_imgs := [(''Breaking Bad'', Some ''poster.jpg'')]\<rparr>
      else if markup = ''s1'' then
        empty_page\<lparr>episode_divs :=
          [rated_block (''S1.E1'' @ sep @ ''Pilot''), unrated_block (''S1.E2'' @ sep @ ''Later'')]\<rparr>
      else if markup = ''s2'' then
        empty_page\<lparr>episode_divs := [rated_block (''S2.E1'' @ sep @ ''Seven Thirty-Seven'')]\<rparr>
      else empty_page)"

text \<open>A site on which every page is served.\<close>

definition sample_get :: "string \<Rightarrow> response" where
  "sample_get url =
     (if url = root_url then Ok ''root''
      else if url = root_url @ ''episodes/?season='' then Ok ''index''
      else if url = root_url @ ''episodes/?season=1'' then Ok ''s1''
      else if url = root_url @ ''episodes/?season=2'' then Ok ''s2''
      else HTTPError ''404 Client Error'')"

definition sample_env :: "(int \<times> int \<times> int) env" where
  "sample_env = \<lparr>get = sample_get, soup = sample_soup, strptime = sample_strptime\<rparr>"

text \<open>The same site when the page of season 1 answers 404.\<close>

definition season1_missing_env :: "(int \<times> int \<times> int) env" where
  "season1_missing_env =
     sample_env\<lparr>get := (\<lambda>url. if url = root_url @ ''episodes/?season=1''
                               then HTTPError ''404 Client Error'' else sample_get url)\<rparr>"

text \<open>The same site when the page of the series answers 404.\<close>

definition root_missing_env :: "(int \<times> int \<times> int) env" where
  "root_missing_env =
     sample_env\<lparr>get := (\<lambda>url. if url = root_url then HTTPError ''404 Client Error''
                               else sample_get url)\<rparr>"

section \<open>Notions used by the properties\<close>



text \<open>
  The heading of an episode block is readable when the first four statements of the loop
  body run through on it: the element is there, the text before the first separator
  gives an integer, and there is a text after the first separator.
\<close>

definition heading_ok :: "episode_block \<Rightarrow> bool" where
  "heading_ok episode =
     (case and_then (text_strip (title_div episode)) (\<lambda>title0.
           and_then (py_index (py_split sep title0) 0) (\<lambda>token.
           and_then (py_int (epnum_sub token)) (\<lambda>number.
           py_index (py_split sep title0) 1))) of
        Inl e \<Rightarrow> False
      | Inr title1 \<Rightarrow> True)"

text \<open>
  An episode block is well formed when the loop body runs through on it and appends a
  row.  Neither the season nor the counter has a part in that.
\<close>

definition well_formed :: "'d env \<Rightarrow> episode_block \<Rightarrow> bool" where
  "well_formed E episode =
     (case episode_body E 0 0 episode of
        Inl e \<Rightarrow> False
      | Inr st \<Rightarrow> (case snd st of None \<Rightarrow> False | Some row \<Rightarrow> True))"

section \<open>Properties\<close>

subsection \<open>The numeric normalizer\<close>

lemma float_of_int_thousand: "float_of_int 1000 = Inr (Finite 1000)"
  by code_simp

lemma float_of_int_million: "float_of_int 1000000 = Inr (Finite 1000000)"
  by code_simp

lemma dic_cases: "dic c = Some mag \<longleftrightarrow> (c = CHR ''K'' \<and> mag = 1000) \<or> (c = CHR ''M'' \<and> mag = 1000000)"
  by (auto simp: dic_def)

lemma dic_None: "dic c = None \<longleftrightarrow> c \<noteq> CHR ''K'' \<and> c \<noteq> CHR ''M''"
  by (auto simp: dic_def)

lemma text_to_num_K:
  "text_to_num (num @ ''K'') =
     (case py_float num of
        Inl e \<Rightarrow> Inl e
      | Inr x \<Rightarrow>
          (case int_of_float (float_mul x (Finite 1000)) of
             Inl e \<Rightarrow> Inl e
           | Inr i \<Rightarrow> Inr (PyInt i)))"
  by (simp add: text_to_num_def dic_def float_of_int_thousand split: sum.splits)

lemma text_to_num_M:
  "text_to_num (num @ ''M'') =
     (case py_float num of
        Inl e \<Rightarrow> Inl e
      | Inr x \<Rightarrow>
          (case int_of_float (float_mul x (Finite 1000000)) of
             Inl e \<Rightarrow> Inl e
           | Inr i \<Rightarrow> Inr (PyInt i)))"
  by (simp add: text_to_num_def dic_def float_of_int_million split: sum.splits)




text \<open>
  Claim C6, as stated, fails: the leading decimal of \<^verbatim>\<open>"1.2345K"\<close> times 1000 is the
  float 1234.5, and the normalizer returns the integer 1234, which is not that product.
\<close>

theorem text_to_num_fraction_counterexample:
  "py_float ''1.2345'' = Inr (Finite (5559693739988877 / 4503599627370496))
   \<and> float_mul (Finite (5559693739988877 / 4503599627370496)) (Finite 1000) = Finite (2469 / 2)
   \<and> text_to_num ''1.2345K'' = Inr (PyInt 1234)
   \<and> \<not> py_num_eq (PyInt 1234) (PyFloat (Finite (2469 / 2)))"
  by code_simp

text \<open>
  Claim C6, amended.  For every text ending in a magnitude suffix on which the normalizer
  returns, the result is an integer: the floating-point product of the parsed leading
  decimal and the magnitude, truncated toward zero by \<^verbatim>\<open>int\<close>.  The fractional part
  of the product is discarded.
\<close>

theorem text_to_num_suffix_truncates:
  assumes "dic c = Some mag" and "text_to_num (num @ [c]) = Inr v"
  shows "\<exists>x p. py_float num = Inr x \<and> float_mul x (Finite (of_int mag)) = Finite p
           \<and> v = PyInt (trunc p)"
proof -
  from assms(1) consider "c = CHR ''K''" "mag = 1000" | "c = CHR ''M''" "mag = 1000000"
    by (auto simp: dic_cases)
  then obtain x i where x: "py_float num = Inr x"
    and i: "int_of_float (float_mul x (Finite (of_int mag))) = Inr i" and v: "v = PyInt i"
  proof cases
    case 1
    with assms(2) that show ?thesis
      by (auto simp: text_to_num_K split: sum.splits)
  next
    case 2
    with assms(2) that show ?thesis
      by (auto simp: text_to_num_M split: sum.splits)
  qed
  from i obtain p where "float_mul x (Finite (of_int mag)) = Finite p" and "i = trunc p"
    by (cases "float_mul x (Finite (of_int mag))") auto
  with x v show ?thesis by blast
qed

theorem text_to_num_suffix_truncates_witness:
  "dic (CHR ''K'') = Some 1000 \<and> text_to_num (''1.2345'' @ [CHR ''K'']) = Inr (PyInt 1234)
   \<and> (\<exists>x p. py_float ''1.2345'' = Inr x \<and> float_mul x (Finite (of_int 1000)) = Finite p
           \<and> PyInt 1234 = PyInt (trunc p))"
proof -
  have a: "dic (CHR ''K'') = Some 1000" by (simp add: dic_def)
  have b: "text_to_num (''1.2345'' @ [CHR ''K'']) = Inr (PyInt 1234)" by code_simp
  from text_to_num_suffix_truncates [OF a b] a b show ?thesis by blast
qed

text \<open>
  No text that ends in a letter outside the literals of \<^verbatim>\<open>float\<close> is accepted by
  \<^verbatim>\<open>float\<close>; the lower-case letters \<^verbatim>\<open>k\<close> and \<^verbatim>\<open>m\<close> are such letters and are no keys
  of the table.
\<close>

lemma split_sign_snoc:
  assumes "c \<noteq> CHR ''+''" and "c \<noteq> CHR ''-''"
  shows "\<exists>b. snd (split_sign (u @ [c])) = b @ [c]"
  using assms by (cases u) (auto simp: split_sign_def)

lemma dropWhile_snoc:
  assumes "\<not> P c"
  shows "dropWhile P (xs @ [c]) = dropWhile P xs @ [c]"
  using assms by (induction xs) auto

lemma strip_with_snoc:
  assumes "\<not> ws c"
  shows "strip_with ws (s @ [c]) = dropWhile ws s @ [c]"
  using assms by (simp add: strip_with_def dropWhile_snoc)

lemma parse_exponent_snoc:
  assumes "\<not> is_digit c" and "c \<noteq> CHR ''+''" and "c \<noteq> CHR ''-''"
    and "c \<noteq> CHR ''e''" and "c \<noteq> CHR ''E''"
  shows "parse_exponent (x @ [c]) = None"
proof (cases x)
  case Nil
  with assms show ?thesis by (simp add: parse_exponent_def)
next
  case (Cons a x')
  from split_sign_snoc [OF assms(2,3), of x'] obtain b where
    "snd (split_sign (x' @ [c])) = b @ [c]" by blast
  with assms(1) Cons show ?thesis
    by (auto simp: parse_exponent_def split: prod.splits)
qed

lemma parse_decimal_snoc:
  assumes "\<not> is_digit c" and "c \<noteq> CHR ''+''" and "c \<noteq> CHR ''-''"
    and "c \<noteq> CHR ''e''" and "c \<noteq> CHR ''E''" and "c \<noteq> CHR ''.''"
  shows "parse_decimal (b @ [c]) = None"
proof (cases "dropWhile is_digit b")
  case Nil
  with assms show ?thesis
    using parse_exponent_snoc [OF assms(1-5), of "[]"]
    by (simp add: parse_decimal_def dropWhile_snoc Let_def)
next
  case (Cons a r)
  show ?thesis
  proof (cases "a = CHR ''.''")
    case True
    with Cons assms show ?thesis
      using parse_exponent_snoc [OF assms(1-5), of "dropWhile is_digit r"]
      by (simp add: parse_decimal_def dropWhile_snoc Let_def)
  next
    case False
    with Cons assms show ?thesis
      using parse_exponent_snoc [OF assms(1-5), of "a # r"]
      by (simp add: parse_decimal_def dropWhile_snoc Let_def)
  qed
qed

lemma py_float_snoc:
  assumes "\<not> is_digit c" and "c \<noteq> CHR ''+''" and "c \<noteq> CHR ''-''"
    and "c \<noteq> CHR ''e''" and "c \<noteq> CHR ''E''" and "c \<noteq> CHR ''.''"
    and "\<not> is_space_ascii c" and "c \<noteq> CHR ''_''"
    and "lower_ascii c \<notin> {CHR ''f'', CHR ''y'', CHR ''n''}"
  shows "py_float (s @ [c]) = Inl ValueError"
proof -
  define t where "t = no_underscores (dropWhile is_space_ascii s)"
  have strip: "strip_with is_space_ascii (s @ [c]) = dropWhile is_space_ascii s @ [c]"
    using assms(7) by (rule strip_with_snoc)
  have nu: "no_underscores (dropWhile is_space_ascii s @ [c]) = t @ [c]"
    using assms(8) by (simp add: no_underscores_def t_def)
  obtain neg b where sp: "split_sign (t @ [c]) = (neg, b @ [c])"
    using split_sign_snoc [OF assms(2,3), of t] by (metis prod.collapse)
  have low: "(map lower_ascii (b @ [c]) = ''inf'') = False"
    "(map lower_ascii (b @ [c]) = ''infinity'') = False"
    "(map lower_ascii (b @ [c]) = ''nan'') = False"
    using assms(9) by (auto simp: append_eq_Cons_conv)
  have pd: "parse_decimal (b @ [c]) = None"
    using assms(1-6) by (rule parse_decimal_snoc)
  show ?thesis
    unfolding py_float_def strip Let_def nu sp
    by (simp only: low pd split_conv if_False simp_thms option.case if_cancel)
qed

lemma text_to_num_lowercase:
  "text_to_num (s @ ''k'') = Inl ValueError \<and> text_to_num (s @ ''m'') = Inl ValueError"
proof -
  have "py_float (s @ [CHR ''k'']) = Inl ValueError"
    by (rule py_float_snoc) (simp_all add: is_digit_def is_space_ascii_def lower_ascii_def)
  moreover have "py_float (s @ [CHR ''m'']) = Inl ValueError"
    by (rule py_float_snoc) (simp_all add: is_digit_def is_space_ascii_def lower_ascii_def)
  ultimately show ?thesis
    by (simp add: text_to_num_def dic_def)
qed

text \<open>
  Claim C10.  The suffix test is case sensitive and needs a last character.  A text that
  ends in a lower-case \<^verbatim>\<open>k\<close> or \<^verbatim>\<open>m\<close> is not taken as a suffixed count: the whole
  text goes to \<^verbatim>\<open>float\<close>, which raises \<^verbatim>\<open>ValueError\<close>; so \<^verbatim>\<open>"12k"\<close> raises and does
  not give 12000, although \<^verbatim>\<open>"12K"\<close> gives it.  On the empty string \<^verbatim>\<open>text[-1]\<close>
  raises \<^verbatim>\<open>IndexError\<close>.
\<close>

theorem text_to_num_lowercase_and_empty_raise:
  "text_to_num (num @ ''k'') = Inl ValueError
   \<and> text_to_num (num @ ''m'') = Inl ValueError
   \<and> text_to_num ''12k'' = Inl ValueError
   \<and> text_to_num ''12K'' = Inr (PyInt 12000)
   \<and> text_to_num '''' = Inl IndexError"
proof -
  have "text_to_num ''12K'' = Inr (PyInt 12000)" by code_simp
  moreover have "text_to_num '''' = Inl IndexError" by (simp add: text_to_num_def)
  ultimately show ?thesis
    using text_to_num_lowercase [of num] text_to_num_lowercase [of "''12''"] by simp
qed

subsection \<open>The URL validator\<close>

text \<open>
  Claim C8.  The validator accepts \<^verbatim>\<open>https://www.imdb.com/title/tt1234567/\<close> and
  rejects the same address on another host, without the final slash, and with the scheme
  \<^verbatim>\<open>ftp\<close>, whatever the two library checks answer.
\<close>

theorem is_valid_imdb_url_samples:
  "is_valid_imdb_url L ''https://www.imdb.com/title/tt1234567/'' = Inr True
   \<and> is_valid_imdb_url L ''http://example.com/title/tt1234567/'' = Inr False
   \<and> is_valid_imdb_url L ''https://www.imdb.com/title/tt1234567'' = Inr False
   \<and> is_valid_imdb_url L ''ftp://www.imdb.com/title/tt1234567/'' = Inr False"
  by code_simp

text \<open>
  Claim C7 does not hold of the code.  On the input \<^verbatim>\<open>http://[\<close> the text handed to
  \<^verbatim>\<open>urlparse\<close> is \<^verbatim>\<open>http://[episodes/?season=\<close>, whose authority \<^verbatim>\<open>[episodes\<close>
  has an opening bracket and no closing one: \<^verbatim>\<open>urlparse\<close> raises \<^verbatim>\<open>ValueError\<close>,
  which the validator does not catch, so it returns no boolean.
\<close>

theorem is_valid_imdb_url_raises:
  "is_valid_imdb_url L ''http://['' = Inl ValueError"
  by code_simp

subsection \<open>The discovery of the seasons\<close>





subsection \<open>Episodes\<close>

text \<open>
  Claim C9 does not hold of the code.  The heading is split at every separator and the
  title is the second piece only: from the heading of episode 1 with the title
  \<^verbatim>\<open>Pilot SEP Part Two\<close> the row keeps the title \<^verbatim>\<open>Pilot\<close>, and not the whole
  remainder.  The episode number is the number of the first piece.
\<close>

theorem episode_title_cut_at_second_separator:
  "map_sum id (map_option title \<circ> snd)
     (episode_body sample_env 1 0 (rated_block (''S1.E1'' @ sep @ ''Pilot'' @ sep @ ''Part Two'')))
   = Inr (Some ''Pilot'')
   \<and> map_sum id (map_option episode_number \<circ> snd)
     (episode_body sample_env 1 0 (rated_block (''S1.E1'' @ sep @ ''Pilot'' @ sep @ ''Part Two'')))
   = Inr (Some 1)"
  by code_simp

text \<open>
  Claim C2, as stated, fails.  A season of \<open>N = 3\<close> blocks whose second block, the
  \<open>(N - 1)\<close>-th, has no rating element yields one row, not \<open>N - 1 = 2\<close>.
\<close>

theorem episodes_loop_unrated_counterexample:
  "length [rated_block (''S1.E1'' @ sep @ ''A''), unrated_block (''S1.E2'' @ sep @ ''B''),
           rated_block (''S1.E3'' @ sep @ ''C'')] = 3
   \<and> map_sum id (length \<circ> snd)
       (episodes_loop sample_env 1
          [rated_block (''S1.E1'' @ sep @ ''A''), unrated_block (''S1.E2'' @ sep @ ''B''),
           rated_block (''S1.E3'' @ sep @ ''C'')] 0 [])
     = Inr 1
   \<and> map_sum id (length \<circ> snd)
       (episodes_loop sample_env 1
          [rated_block (''S1.E1'' @ sep @ ''A''), unrated_block (''S1.E2'' @ sep @ ''B''),
           rated_block (''S1.E3'' @ sep @ ''C'')] 0 [])
     \<noteq> Inr (3 - 1)"
  by code_simp

text \<open>The loop body on the two kinds of block, for any season and counter.\<close>

lemma and_then_Inr_iff:
  "and_then m f = Inr y \<longleftrightarrow> (\<exists>x. m = Inr x \<and> f x = Inr y)"
  by (cases m) auto

lemma episode_body_unrated:
  assumes "heading_ok u" and "rating_span u = None"
  shows "episode_body E sn cum u = Inr (cum + 1, None)"
  using assms
  by (auto simp: heading_ok_def episode_body_def and_then_Inr_iff split: sum.splits)

lemma episode_body_well_formed:
  assumes "well_formed E b"
  shows "\<exists>row. episode_body E sn cum b = Inr (cum + 1, Some row)
           \<and> cumulative_episode_number row = cum + 1 \<and> season row = sn"
proof -
  from assms obtain c row where "episode_body E 0 0 b = Inr (c, Some row)"
    by (auto simp: well_formed_def split: sum.splits option.splits)
  then show ?thesis
    by (auto simp: episode_body_def and_then_Inr_iff split: option.splits)
qed

text \<open>
  Over well-formed blocks the loop appends one row each, numbered consecutively from the
  counter, and goes on with what follows.
\<close>

lemma episodes_loop_well_formed:
  assumes "\<forall>b\<in>set bs. well_formed E b"
  shows "\<exists>rs. (\<forall>rest. episodes_loop E sn (bs @ rest) cum rows
                    = episodes_loop E sn rest (cum + int (length bs)) (rows @ rs))
           \<and> length rs = length bs
           \<and> map cumulative_episode_number rs = [cum + 1..cum + int (length bs)]"
  using assms
proof (induction bs arbitrary: cum rows)
  case Nil
  then show ?case by simp
next
  case (Cons b bs)
  from Cons.prems obtain row where row: "episode_body E sn cum b = Inr (cum + 1, Some row)"
    and c: "cumulative_episode_number row = cum + 1"
    using episode_body_well_formed [of E b sn cum] by auto
  from Cons.prems have "\<forall>b\<in>set bs. well_formed E b" by simp
  from Cons.IH [OF this, of "cum + 1" "rows @ [row]"] obtain rs where
    rs: "\<And>rest. episodes_loop E sn (bs @ rest) (cum + 1) (rows @ [row])
           = episodes_loop E sn rest (cum + 1 + int (length bs)) ((rows @ [row]) @ rs)"
    and len: "length rs = length bs"
    and cs: "map cumulative_episode_number rs = [cum + 1 + 1..cum + 1 + int (length bs)]"
    by blast
  have e: "cum + int (length (b # bs)) = cum + 1 + int (length bs)" by simp
  have u: "[cum + 1..cum + 1 + int (length bs)]
             = (cum + 1) # [cum + 1 + 1..cum + 1 + int (length bs)]"
    by (rule upto_rec1) simp
  have "\<forall>rest. episodes_loop E sn ((b # bs) @ rest) cum rows
          = episodes_loop E sn rest (cum + 1 + int (length bs)) (rows @ row # rs)"
    using row rs by simp
  moreover have "length (row # rs) = length (b # bs)" using len by simp
  moreover have "map cumulative_episode_number (row # rs) = [cum + 1..cum + 1 + int (length bs)]"
    unfolding u using c cs by simp
  ultimately show ?case unfolding e by blast
qed

text \<open>
  Claim C2, amended.  When the blocks of a season are some well-formed blocks \<open>pre\<close>, then
  a block with a readable heading and no rating element, then any blocks \<open>post\<close>, the
  extraction of the season appends exactly one row for each block of \<open>pre\<close> and ends
  there: the result is the one obtained when nothing follows the block without rating.
  With \<open>N\<close> blocks of which the \<open>(N - 1)\<close>-th has no rating this makes \<open>N - 2\<close> rows, and
  the \<open>N\<close>-th block is not processed.
\<close>

theorem episodes_loop_stops_at_unrated:
  assumes "\<forall>b\<in>set pre. well_formed E b" and "heading_ok u" and "rating_span u = None"
  shows "\<exists>rs. episodes_loop E sn (pre @ u # post) cum rows
                  = Inr (cum + int (length pre) + 1, rows @ rs)
           \<and> length rs = length pre
           \<and> map cumulative_episode_number rs = [cum + 1..cum + int (length pre)]
           \<and> episodes_loop E sn (pre @ u # post) cum rows
               = episodes_loop E sn (pre @ [u]) cum rows"
proof -
  have stop: "episodes_loop E sn (u # tl) c rws = Inr (c + 1, rws)" for tl c rws
    using episode_body_unrated [OF assms(2,3), of E sn c] by simp
  from episodes_loop_well_formed [OF assms(1), of sn cum rows] obtain rs where
    a: "\<And>rest. episodes_loop E sn (pre @ rest) cum rows
          = episodes_loop E sn rest (cum + int (length pre)) (rows @ rs)"
    and len: "length rs = length pre"
    and cs: "map cumulative_episode_number rs = [cum + 1..cum + int (length pre)]"
    by blast
  have "episodes_loop E sn (pre @ u # tl) cum rows
          = Inr (cum + int (length pre) + 1, rows @ rs)" for tl
    using a [of "u # tl"] stop by simp
  from this [of post] this [of "[]"] len cs show ?thesis by simp
qed

theorem episodes_loop_stops_at_unrated_witness:
  "well_formed sample_env (rated_block (''S1.E1'' @ sep @ ''A''))
   \<and> heading_ok (unrated_block (''S1.E2'' @ sep @ ''B''))
   \<and> rating_span (unrated_block (''S1.E2'' @ sep @ ''B'')) = None
   \<and> (\<exists>rs. episodes_loop sample_env 1
              ([rated_block (''S1.E1'' @ sep @ ''A'')] @ unrated_block (''S1.E2'' @ sep @ ''B'')
                 # [rated_block (''S1.E3'' @ sep @ ''C'')]) 0 []
             = Inr (0 + int (length [rated_block (''S1.E1'' @ sep @ ''A'')]) + 1, [] @ rs)
           \<and> length rs = length [rated_block (''S1.E1'' @ sep @ ''A'')])"
proof -
  have w: "well_formed sample_env (rated_block (''S1.E1'' @ sep @ ''A''))"
    by code_simp
  then have a: "\<forall>b\<in>set [rated_block (''S1.E1'' @ sep @ ''A'')]. well_formed sample_env b"
    by simp
  have b: "heading_ok (unrated_block (''S1.E2'' @ sep @ ''B''))"
    by code_simp
  have c: "rating_span (unrated_block (''S1.E2'' @ sep @ ''B'')) = None"
    by (simp add: unrated_block_def)
  from episodes_loop_stops_at_unrated [OF a b c, of 1 "[rated_block (''S1.E3'' @ sep @ ''C'')]" 0 "[]"]
    w b c show ?thesis by blast
qed


subsection \<open>The series\<close>

text \<open>
  What does hold of the counter: in every run of \<^verbatim>\<open>parse_data\<close> that returns, the
  cumulative numbers of the rows are positive and strictly increasing in the order of
  extraction.
\<close>

lemma episode_body_counter:
  assumes "episode_body E sn cum b = Inr (c, r)"
  shows "c = cum + 1" and "r = Some row \<Longrightarrow> cumulative_episode_number row = cum + 1"
  using assms
  by (auto simp: episode_body_def and_then_Inr_iff split: option.splits)

lemma episodes_loop_increasing:
  assumes "episodes_loop E sn bs cum rows = Inr (c, rows')"
  shows "\<exists>rs. rows' = rows @ rs \<and> cum \<le> c
           \<and> sorted_wrt (<) (map cumulative_episode_number rs)
           \<and> (\<forall>r\<in>set rs. cum < cumulative_episode_number r \<and> cumulative_episode_number r \<le> c)"
  using assms
proof (induction bs arbitrary: cum rows)
  case Nil
  then show ?case by simp
next
  case (Cons b bs)
  from Cons.prems obtain c1 r where body: "episode_body E sn cum b = Inr (c1, r)"
    by (auto split: sum.splits)
  then have c1: "c1 = cum + 1" by (rule episode_body_counter)
  show ?case
  proof (cases r)
    case None
    with Cons.prems body c1 show ?thesis by simp
  next
    case (Some row)
    with body have n: "cumulative_episode_number row = cum + 1"
      by (simp add: episode_body_counter)
    from Cons.prems body Some have "episodes_loop E sn bs c1 (rows @ [row]) = Inr (c, rows')"
      by simp
    from Cons.IH [OF this] obtain rs where rs: "rows' = (rows @ [row]) @ rs" "c1 \<le> c"
      "sorted_wrt (<) (map cumulative_episode_number rs)"
      "\<forall>r\<in>set rs. c1 < cumulative_episode_number r \<and> cumulative_episode_number r \<le> c"
      by blast
    with c1 n show ?thesis
      by (intro exI [of _ "row # rs"]) auto
  qed
qed

lemma then_ui_Inr:
  assumes "snd (then_ui m f) = Inr y"
  shows "\<exists>x. snd m = Inr x \<and> snd (f x) = Inr y"
  using assms by (cases m; cases "snd m") auto

lemma seasons_loop_increasing:
  assumes "snd (seasons_loop E url sns cum rows) = Inr rows'"
  shows "\<exists>rs. rows' = rows @ rs
           \<and> sorted_wrt (<) (map cumulative_episode_number rs)
           \<and> (\<forall>r\<in>set rs. cum < cumulative_episode_number r)"
  using assms
proof (induction sns arbitrary: cum rows)
  case Nil
  then show ?case by simp
next
  case (Cons sn sns)
  from then_ui_Inr [OF Cons.prems [unfolded seasons_loop.simps]]
  obtain st where st: "and_then (BeautifulSoup E (snd (scrape_data E (url @ py_str sn))))
                (\<lambda>season_soup. episodes_loop E sn (episode_divs season_soup) cum rows) = Inr st"
    and rest: "snd (seasons_loop E url sns (fst st) (snd st)) = Inr rows'"
    by auto
  from st obtain pg :: page where "episodes_loop E sn (episode_divs pg) cum rows = Inr st"
    by (auto simp: and_then_Inr_iff)
  then have "episodes_loop E sn (episode_divs pg) cum rows = Inr (fst st, snd st)"
    by simp
  from episodes_loop_increasing [OF this] obtain rs1 where rs1: "snd st = rows @ rs1"
    "cum \<le> fst st" "sorted_wrt (<) (map cumulative_episode_number rs1)"
    "\<forall>r\<in>set rs1. cum < cumulative_episode_number r \<and> cumulative_episode_number r \<le> fst st"
    by blast
  from Cons.IH [OF rest] obtain rs2 where rs2: "rows' = snd st @ rs2"
    "sorted_wrt (<) (map cumulative_episode_number rs2)"
    "\<forall>r\<in>set rs2. fst st < cumulative_episode_number r"
    by blast
  from rs1 rs2 show ?case
    by (intro exI [of _ "rs1 @ rs2"]) (fastforce simp: sorted_wrt_append)
qed

lemma parse_data_increasing:
  assumes "snd (parse_data E html_data url) = Inr (rows, info, poster)"
  shows "sorted_wrt (<) (map cumulative_episode_number rows)
         \<and> (\<forall>r\<in>set rows. 0 < cumulative_episode_number r)"
proof -
  from assms obtain sns where
    "snd (seasons_loop E (url @ ''episodes/?season='') sns 0 []) = Inr rows"
    unfolding parse_data_def by (auto dest!: then_ui_Inr)
  from seasons_loop_increasing [OF this] show ?thesis by auto
qed


text \<open>
  Claim C1 does not hold of the code.  The counter is incremented before the rating
  element is looked up, so the block that ends a season without a row has used up a
  number.  On the sample site season 1 is a rated episode followed by an episode without
  rating and season 2 is a rated episode: the two rows extracted carry the numbers 1 and
  3, although the second row is appended when one row has been extracted.
\<close>

theorem cumulative_number_gap:
  "map_sum id (map cumulative_episode_number \<circ> fst)
     (snd (parse_data sample_env ''root'' root_url)) = Inr [1, 3]"
  by code_simp

text \<open>
  The two fetch errors in general: an HTTP error on the page of a season ends the loop
  over the seasons with \<^verbatim>\<open>TypeError\<close>, and an HTTP error on the page of the series ends
  the handler of the button with the two messages and without parsing.
\<close>

lemma seasons_loop_fetch_error:
  assumes "get E (url @ py_str sn) = HTTPError e"
  shows "seasons_loop E url (sn # sns) cum rows = ([StError (''HTTP Error: '' @ e)], Inl TypeError)"
  using assms by (simp add: scrape_data_def BeautifulSoup_def)

lemma scrape_button_root_error:
  assumes "is_valid_imdb_url L url = Inr True" and "get E url = HTTPError e"
  shows "scrape_button L E url
           = ([Print url, StError (''HTTP Error: '' @ e), StError ''Failed to scrape data.''],
              Inr Failed)"
  using assms by (simp add: scrape_button_def scrape_data_def)

text \<open>
  Claim C3 does not hold of the code.  When the page of season 1 answers 404,
  \<^verbatim>\<open>scrape_data\<close> shows the HTTP error and returns \<^verbatim>\<open>None\<close>, on which
  \<^verbatim>\<open>BeautifulSoup\<close> raises \<^verbatim>\<open>TypeError\<close>: \<^verbatim>\<open>parse_data\<close> ends with that exception
  and returns no rows, also none of season 2.  When the page of the series answers 404,
  the HTTP error and the failure are shown and nothing is parsed.
\<close>

theorem season_page_error_aborts:
  "parse_data season1_missing_env ''root'' root_url
     = ([StError ''HTTP Error: 404 Client Error''], Inl TypeError)
   \<and> scrape_button L root_missing_env root_url
     = ([Print root_url, StError ''HTTP Error: 404 Client Error'',
         StError ''Failed to scrape data.''], Inr Failed)"
  by code_simp

end
